theory Spec2Isabelle
  imports Main
begin

section \<open>Python values, exceptions and text\<close>

text \<open>
  The module \<^verbatim>\<open>plc_connect.py\<close> defines one class, \<^verbatim>\<open>data_transfer\<close>, a client
  that exchanges ASCII-hex frames with a PLC over a socket. Python text is modelled as
  \<^typ>\<open>string\<close>; the protocol alphabet is ASCII, and a \<^typ>\<open>char\<close> stands for the
  ASCII code point of the same number. Python integers are \<^typ>\<open>int\<close>. Exceptions are
  values: every method returns a sum whose left summand is the exception that leaves the
  method. Console output (\<^verbatim>\<open>print\<close>) and the pause \<^verbatim>\<open>time.sleep(0.01)\<close> change
  neither a return value nor the socket and are left out.
\<close>

datatype exn = Exception | SocketError | AttributeError | ValueError | TypeError

datatype pyval = PNone | PInt int | PStr string | PExn exn | PList "pyval list"

subsection \<open>\<^verbatim>\<open>str\<close>, \<^verbatim>\<open>format(_, 'x')\<close>, \<^verbatim>\<open>zfill\<close>, \<^verbatim>\<open>upper\<close>\<close>

definition digit_char :: "nat \<Rightarrow> char" where
  "digit_char d = ''0123456789abcdef'' ! d"

fun dec_digits :: "nat \<Rightarrow> string" where
  "dec_digits n = (if n < 10 then [digit_char n] else dec_digits (n div 10) @ [digit_char (n mod 10)])"

fun hex_digits :: "nat \<Rightarrow> string" where
  "hex_digits n = (if n < 16 then [digit_char n] else hex_digits (n div 16) @ [digit_char (n mod 16)])"

text \<open>\<^verbatim>\<open>str(i)\<close> of an integer: decimal, with a minus sign when negative.\<close>

definition py_str :: "int \<Rightarrow> string" where
  "py_str i = (if i < 0 then CHR ''-'' # dec_digits (nat (- i)) else dec_digits (nat i))"

text \<open>\<^verbatim>\<open>format(i, 'x')\<close> of an integer: lower-case hexadecimal, no prefix, with a minus
  sign when negative.\<close>

definition py_format_x :: "int \<Rightarrow> string" where
  "py_format_x i = (if i < 0 then CHR ''-'' # hex_digits (nat (- i)) else hex_digits (nat i))"

text \<open>\<^verbatim>\<open>s.zfill(width)\<close>: a string at least \<open>width\<close> long is returned as it is; a shorter
  one is padded with zeros on the left, after a leading sign if there is one.\<close>

definition zfill :: "nat \<Rightarrow> string \<Rightarrow> string" where
  "zfill width s =
     (if width \<le> length s then s
      else (case s of
              [] \<Rightarrow> replicate width CHR ''0''
            | c # cs \<Rightarrow>
                if c = CHR ''+'' \<or> c = CHR ''-''
                then c # replicate (width - length s) CHR ''0'' @ cs
                else replicate (width - length s) CHR ''0'' @ s))"

text \<open>\<^verbatim>\<open>s.upper()\<close> on ASCII text: the letters a to z move to A to Z.\<close>

definition upper_char :: "char \<Rightarrow> char" where
  "upper_char c =
     (let n = (of_char c :: nat) in if 97 \<le> n \<and> n \<le> 122 then char_of (n - 32) else c)"

definition upper :: "string \<Rightarrow> string" where
  "upper s = map upper_char s"

subsection \<open>Request frames\<close>

text \<open>The variable \<^verbatim>\<open>number\<close> of \<^verbatim>\<open>read\<close> and \<^verbatim>\<open>write\<close>:
  \<^verbatim>\<open>str(length).zfill(4)\<close>.\<close>

definition number :: "int \<Rightarrow> string" where
  "number len = zfill 4 (py_str len)"

text \<open>The frame \<^verbatim>\<open>cmd\<close> that \<^verbatim>\<open>read\<close> builds before its \<^verbatim>\<open>try\<close> block.\<close>

definition read_cmd :: "string \<Rightarrow> int \<Rightarrow> string" where
  "read_cmd device len =
     (let cmd = ''001004010000'' @ device @ number len;
          cmd_length = zfill 4 (py_format_x (int (length cmd)))
      in upper (''500000FF03FF00'' @ cmd_length @ cmd))"

text \<open>The frame \<^verbatim>\<open>cmd\<close> that \<^verbatim>\<open>write\<close> builds before its \<^verbatim>\<open>try\<close> block.\<close>

definition write_cmd :: "string \<Rightarrow> int \<Rightarrow> int \<Rightarrow> string" where
  "write_cmd device data len =
     (let data' = zfill 4 (py_format_x data);
          cmd = ''001014010000'' @ device @ number len @ data';
          cmd_length = zfill 4 (py_format_x (int (length cmd)))
      in upper (''500000FF03FF00'' @ cmd_length @ cmd))"

section \<open>The socket\<close>

text \<open>
  The socket object of Python's library is the environment of the client. What the network
  does is fixed in advance by two oracles, indexed by the number of the call:
  \<open>send_env s k\<close> says whether the \<open>k\<close>-th call of \<^verbatim>\<open>sock.send\<close> succeeds, and
  \<open>recv_env s k\<close> is the outcome of the \<open>k\<close>-th evaluation of
  \<^verbatim>\<open>sock.recv(1024).decode('utf-8')\<close>: either it raises (a timeout or another
  \<^verbatim>\<open>socket.error\<close> of \<^verbatim>\<open>recv\<close>, or a decoding error), or it yields the text received.
  \<open>fd_open\<close> says whether the socket still holds its file descriptor, and \<open>close_fails\<close>
  whether the operating system reports an error when that descriptor is closed.
\<close>

datatype recv_event = RecvRaise | RecvText string

record socket =
  fd_open :: bool
  close_fails :: bool
  send_env :: "nat \<Rightarrow> bool"
  recv_env :: "nat \<Rightarrow> recv_event"
  n_send :: nat
  n_recv :: nat
  sent :: "string list"

text \<open>\<^verbatim>\<open>sock.send(bytes)\<close>: raises \<^verbatim>\<open>socket.error\<close> on a closed socket or when the
  network refuses; otherwise the bytes go out. The encoding of ASCII text to UTF-8 is the
  identity.\<close>

definition sock_send :: "socket \<Rightarrow> string \<Rightarrow> (exn + unit) \<times> socket" where
  "sock_send s bytes =
     (if \<not> fd_open s then (Inl SocketError, s)
      else if send_env s (n_send s)
        then (Inr (), s\<lparr>n_send := Suc (n_send s), sent := sent s @ [bytes]\<rparr>)
        else (Inl SocketError, s\<lparr>n_send := Suc (n_send s)\<rparr>))"

text \<open>\<^verbatim>\<open>sock.recv(1024).decode('utf-8')\<close>.\<close>

definition sock_recv :: "socket \<Rightarrow> (exn + string) \<times> socket" where
  "sock_recv s =
     (if \<not> fd_open s then (Inl SocketError, s)
      else (case recv_env s (n_recv s) of
              RecvRaise \<Rightarrow> (Inl SocketError, s\<lparr>n_recv := Suc (n_recv s)\<rparr>)
            | RecvText t \<Rightarrow> (Inr t, s\<lparr>n_recv := Suc (n_recv s)\<rparr>)))"

text \<open>\<^verbatim>\<open>sock.close()\<close>: the socket gives up its file descriptor and closes it, raising
  \<^verbatim>\<open>socket.error\<close> if the operating system reports an error; a socket that has already
  given up its descriptor does nothing and raises nothing.\<close>

definition sock_close :: "socket \<Rightarrow> (exn + unit) \<times> socket" where
  "sock_close s =
     (if fd_open s
      then (if close_fails s then (Inl SocketError, s\<lparr>fd_open := False\<rparr>)
            else (Inr (), s\<lparr>fd_open := False\<rparr>))
      else (Inr (), s))"

section \<open>The class \<^verbatim>\<open>data_transfer\<close>\<close>

text \<open>
  An object has one attribute, \<^verbatim>\<open>__sock\<close>. The constructor leaves it unset when
  \<^verbatim>\<open>socket.socket\<close> itself raises \<^verbatim>\<open>socket.error\<close>; reading an unset attribute
  raises \<^verbatim>\<open>AttributeError\<close>.
\<close>

record data_transfer =
  sock :: "socket option"

text \<open>
  \<^verbatim>\<open>close\<close>: the handler catches \<^verbatim>\<open>socket.error\<close> only, and the \<^verbatim>\<open>return\<close> in
  the \<^verbatim>\<open>finally\<close> clause discards any other exception on its way out.
\<close>

definition close :: "data_transfer \<Rightarrow> (exn + int) \<times> data_transfer" where
  "close self =
     (let (r, self') =
            (case sock self of
               None \<Rightarrow> (Inl AttributeError, self)
             | Some s \<Rightarrow> (case sock_close s of (r, s') \<Rightarrow> (r, self\<lparr>sock := Some s'\<rparr>)));
          return_cd = (case r of Inl e \<Rightarrow> if e = SocketError then 1 else 0 | Inr _ \<Rightarrow> 0)
      in (Inr return_cd, self'))"

text \<open>\<^verbatim>\<open>send\<close>: the bare \<^verbatim>\<open>except\<close> catches every exception.\<close>

definition send :: "data_transfer \<Rightarrow> string \<Rightarrow> (exn + int) \<times> data_transfer" where
  "send self cmd =
     (let (r, self') =
            (case sock self of
               None \<Rightarrow> (Inl AttributeError, self)
             | Some s \<Rightarrow> (case sock_send s cmd of (r, s') \<Rightarrow> (r, self\<lparr>sock := Some s'\<rparr>)));
          return_cd = (case r of Inl e \<Rightarrow> 1 | Inr _ \<Rightarrow> 0)
      in (Inr return_cd, self'))"

text \<open>\<^verbatim>\<open>recv\<close>: \<^verbatim>\<open>data\<close> starts as the empty list and is assigned only when the
  receive and the decoding both succeed.\<close>

definition recv :: "data_transfer \<Rightarrow> (exn + int \<times> pyval) \<times> data_transfer" where
  "recv self =
     (let (r, self') =
            (case sock self of
               None \<Rightarrow> (Inl AttributeError, self)
             | Some s \<Rightarrow> (case sock_recv s of (r, s') \<Rightarrow> (r, self\<lparr>sock := Some s'\<rparr>)))
      in (case r of
            Inl e \<Rightarrow> (Inr (1, PList []), self')
          | Inr t \<Rightarrow> (Inr (0, PStr t), self')))"

subsection \<open>Slices and \<^verbatim>\<open>int(_, 16)\<close>\<close>

text \<open>\<^verbatim>\<open>x[i:j]\<close> for \<open>0 \<le> i \<le> j\<close>: defined on text and on lists, never out of range;
  any other value raises \<^verbatim>\<open>TypeError\<close>.\<close>

fun py_slice :: "pyval \<Rightarrow> nat \<Rightarrow> nat \<Rightarrow> exn + pyval" where
  "py_slice (PStr s) i j = Inr (PStr (take (j - i) (drop i s)))"
| "py_slice (PList xs) i j = Inr (PList (take (j - i) (drop i xs)))"
| "py_slice _ i j = Inl TypeError"

definition is_space :: "char \<Rightarrow> bool" where
  "is_space c = ((of_char c :: nat) \<in> {9, 10, 11, 12, 13, 32})"

definition hex_val :: "char \<Rightarrow> nat option" where
  "hex_val c =
     (let n = (of_char c :: nat) in
      if 48 \<le> n \<and> n \<le> 57 then Some (n - 48)
      else if 97 \<le> n \<and> n \<le> 102 then Some (n - 87)
      else if 65 \<le> n \<and> n \<le> 70 then Some (n - 55)
      else None)"

text \<open>The scan of the digits: hexadecimal digits with single underscores between them.
  The result is the value, the number of digits, and the text after the last digit;
  \<open>None\<close> is a doubled or trailing underscore.\<close>

fun scan_hex :: "string \<Rightarrow> bool \<Rightarrow> nat \<Rightarrow> nat \<Rightarrow> (nat \<times> nat \<times> string) option" where
  "scan_hex [] prev_us acc digits = (if prev_us then None else Some (acc, digits, []))"
| "scan_hex (c # cs) prev_us acc digits =
     (if c = CHR ''_'' then (if prev_us then None else scan_hex cs True acc digits)
      else (case hex_val c of
              Some d \<Rightarrow> scan_hex cs False (16 * acc + d) (Suc digits)
            | None \<Rightarrow> if prev_us then None else Some (acc, digits, c # cs)))"

text \<open>\<^verbatim>\<open>int(s, 16)\<close> on ASCII text: white space around, an optional sign, an optional
  prefix \<^verbatim>\<open>0x\<close> or \<^verbatim>\<open>0X\<close> with one underscore allowed after it, then at least one
  digit. Anything else raises \<^verbatim>\<open>ValueError\<close>.\<close>

definition int16_str :: "string \<Rightarrow> exn + int" where
  "int16_str s =
     (let s1 = dropWhile is_space s;
          (neg, s2) = (case s1 of
                         [] \<Rightarrow> (False, s1)
                       | c # r \<Rightarrow> if c = CHR ''+'' then (False, r)
                                  else if c = CHR ''-'' then (True, r) else (False, s1));
          s3 = (case s2 of
                  c # x # r \<Rightarrow>
                    if c = CHR ''0'' \<and> (x = CHR ''x'' \<or> x = CHR ''X'')
                    then (case r of [] \<Rightarrow> r | u # r' \<Rightarrow> if u = CHR ''_'' then r' else r)
                    else s2
                | _ \<Rightarrow> s2)
      in if s3 \<noteq> [] \<and> hd s3 = CHR ''_'' then Inl ValueError
         else (case scan_hex s3 False 0 0 of
                 None \<Rightarrow> Inl ValueError
               | Some (v, digits, rest) \<Rightarrow>
                   if digits = 0 then Inl ValueError
                   else if dropWhile is_space rest \<noteq> [] then Inl ValueError
                   else Inr (if neg then - int v else int v)))"

text \<open>\<^verbatim>\<open>int(x, 16)\<close>: with an explicit base, a value that is not text raises
  \<^verbatim>\<open>TypeError\<close>.\<close>

fun py_int16 :: "pyval \<Rightarrow> exn + int" where
  "py_int16 (PStr s) = int16_str s"
| "py_int16 _ = Inl TypeError"

subsection \<open>\<^verbatim>\<open>read\<close> and \<^verbatim>\<open>write\<close>\<close>

text \<open>
  The \<^verbatim>\<open>while\<close> loop of both methods, entered with the result of the first
  \<^verbatim>\<open>recv\<close> and the counter at 0. An iteration adds one to the counter, receives again,
  and raises \<^verbatim>\<open>Exception\<close> if the counter is positive. The loop returns the value of
  \<^verbatim>\<open>recv_data\<close> when it is left without an exception.
\<close>

function retry_loop ::
  "int \<Rightarrow> pyval \<Rightarrow> int \<Rightarrow> data_transfer \<Rightarrow> (exn + pyval) \<times> data_transfer" where
  "retry_loop rtn_cd recv_data retry_cntr self =
     (if rtn_cd \<noteq> 0 then
        (case recv self of
           (Inl e, self') \<Rightarrow> (Inl e, self')
         | (Inr (rtn_cd', recv_data'), self') \<Rightarrow>
             if retry_cntr + 1 > 0 then (Inl Exception, self')
             else retry_loop rtn_cd' recv_data' (retry_cntr + 1) self')
      else (Inr recv_data, self))"
  by pat_completeness auto
termination
  by (relation "measure (\<lambda>(rtn_cd, recv_data, retry_cntr, self). nat (- retry_cntr))") auto

text \<open>The \<^verbatim>\<open>for\<close> loop of \<^verbatim>\<open>read\<close> over the indices of \<^verbatim>\<open>range(length)\<close>, with
  the list \<^verbatim>\<open>data\<close> built so far.\<close>

fun decode_loop :: "pyval \<Rightarrow> nat list \<Rightarrow> pyval list \<Rightarrow> exn + pyval list" where
  "decode_loop recv_data [] data = Inr data"
| "decode_loop recv_data (i # is) data =
     (let pos = 4 * i + 22 in
      case py_slice recv_data pos (pos + 4) of
        Inl e \<Rightarrow> Inl e
      | Inr slot \<Rightarrow>
          if slot \<noteq> PStr ''''
          then (case py_int16 slot of
                  Inl e \<Rightarrow> Inl e
                | Inr v \<Rightarrow> decode_loop recv_data is (data @ [PInt v]))
          else decode_loop recv_data is (data @ [PStr '''']))"

text \<open>The body of the \<^verbatim>\<open>try\<close> block of \<^verbatim>\<open>read\<close>; \<open>Inl\<close> is an exception raised in
  it.\<close>

definition read_try ::
  "data_transfer \<Rightarrow> string \<Rightarrow> int \<Rightarrow> (exn + pyval) \<times> data_transfer" where
  "read_try self cmd len =
     (case send self cmd of
        (Inl e, self1) \<Rightarrow> (Inl e, self1)
      | (Inr rc, self1) \<Rightarrow>
          if rc \<noteq> 0 then (Inl Exception, self1)
          else (case recv self1 of
                  (Inl e, self2) \<Rightarrow> (Inl e, self2)
                | (Inr (rtn_cd, recv_data), self2) \<Rightarrow>
                    (case retry_loop rtn_cd recv_data 0 self2 of
                       (Inl e, self3) \<Rightarrow> (Inl e, self3)
                     | (Inr recv_data', self3) \<Rightarrow>
                         (case py_slice recv_data' 18 22 of
                            Inl e \<Rightarrow> (Inl e, self3)
                          | Inr status \<Rightarrow>
                              if status \<noteq> PStr ''0000''
                              then (Inr (PList [PList [PNone]]), self3)
                              else (case decode_loop recv_data' [0..<nat len] [] of
                                      Inl e \<Rightarrow> (Inl e, self3)
                                    | Inr data \<Rightarrow> (Inr (PList data), self3))))))"

text \<open>\<^verbatim>\<open>read\<close>: every exception of the block is caught and returned inside a nested
  list.\<close>

definition read :: "data_transfer \<Rightarrow> string \<Rightarrow> int \<Rightarrow> (exn + pyval) \<times> data_transfer" where
  "read self device len =
     (case read_try self (read_cmd device len) len of
        (Inl e, self') \<Rightarrow> (Inr (PList [PList [PExn e]]), self')
      | (Inr v, self') \<Rightarrow> (Inr v, self'))"

text \<open>The body of the \<^verbatim>\<open>try\<close> block of \<^verbatim>\<open>write\<close>.\<close>

definition write_try :: "data_transfer \<Rightarrow> string \<Rightarrow> (exn + pyval) \<times> data_transfer" where
  "write_try self cmd =
     (case send self cmd of
        (Inl e, self1) \<Rightarrow> (Inl e, self1)
      | (Inr rc, self1) \<Rightarrow>
          if rc \<noteq> 0 then (Inl Exception, self1)
          else (case recv self1 of
                  (Inl e, self2) \<Rightarrow> (Inl e, self2)
                | (Inr (rtn_cd, recv_data), self2) \<Rightarrow>
                    (case retry_loop rtn_cd recv_data 0 self2 of
                       (Inl e, self3) \<Rightarrow> (Inl e, self3)
                     | (Inr recv_data', self3) \<Rightarrow>
                         (case py_slice recv_data' 18 22 of
                            Inl e \<Rightarrow> (Inl e, self3)
                          | Inr status \<Rightarrow>
                              if status \<noteq> PStr ''0000''
                              then (Inr (PInt 1), self3)
                              else (Inr (PInt 0), self3)))))"

text \<open>\<^verbatim>\<open>write\<close>: an exception of the block is caught and returned as the result.\<close>

definition "write" ::
  "data_transfer \<Rightarrow> string \<Rightarrow> int \<Rightarrow> int \<Rightarrow> (exn + pyval) \<times> data_transfer" where
  "write self device data len =
     (case write_try self (write_cmd device data len) of
        (Inl e, self') \<Rightarrow> (Inr (PExn e), self')
      | (Inr v, self') \<Rightarrow> (Inr v, self'))"

section \<open>Describing the environment and the result\<close>

text \<open>\<open>send_ok self\<close>: the next \<^verbatim>\<open>sock.send\<close> of the object succeeds.\<close>

definition send_ok :: "data_transfer \<Rightarrow> bool" where
  "send_ok self = (case sock self of None \<Rightarrow> False | Some s \<Rightarrow> fd_open s \<and> send_env s (n_send s))"

text \<open>\<open>nth_recv self k\<close>: the outcome of the \<open>k\<close>-th receive attempt from now on, counted
  from 0, on an object whose socket stays as it is in between.\<close>

definition nth_recv :: "data_transfer \<Rightarrow> nat \<Rightarrow> recv_event" where
  "nth_recv self k =
     (case sock self of
        None \<Rightarrow> RecvRaise
      | Some s \<Rightarrow> if fd_open s then recv_env s (n_recv s + k) else RecvRaise)"

text \<open>The status field of a response, \<^verbatim>\<open>recv_data[18:22]\<close>, and the \<open>i\<close>-th payload slot,
  \<^verbatim>\<open>recv_data[4*i+22:4*i+26]\<close>.\<close>

definition status :: "string \<Rightarrow> string" where
  "status t = take 4 (drop 18 t)"

definition slot :: "string \<Rightarrow> nat \<Rightarrow> string" where
  "slot t i = take 4 (drop (4 * i + 22) t)"

text \<open>A slot that the loop of \<^verbatim>\<open>read\<close> passes without an exception: it is empty or
  \<^verbatim>\<open>int(_, 16)\<close> accepts it.\<close>

definition slot_ok :: "string \<Rightarrow> nat \<Rightarrow> bool" where
  "slot_ok t i = (slot t i = [] \<or> (case int16_str (slot t i) of Inl e \<Rightarrow> False | Inr v \<Rightarrow> True))"

text \<open>The element that the loop appends for such a slot.\<close>

definition slot_value :: "string \<Rightarrow> nat \<Rightarrow> pyval" where
  "slot_value t i =
     (if slot t i = [] then PStr ''''
      else (case int16_str (slot t i) of Inl e \<Rightarrow> PStr '''' | Inr v \<Rightarrow> PInt v))"

text \<open>An element of a successful result: an integer or the empty text. A flat result: a
  list of such elements.\<close>

fun is_elem :: "pyval \<Rightarrow> bool" where
  "is_elem (PInt v) = True"
| "is_elem (PStr s) = (s = [])"
| "is_elem _ = False"

fun flat_result :: "pyval \<Rightarrow> bool" where
  "flat_result (PList xs) = list_all is_elem xs"
| "flat_result _ = False"

text \<open>An open socket on which every send succeeds and whose receive attempts have the
  given outcomes, and the object that owns it.\<close>

definition socket_with :: "(nat \<Rightarrow> recv_event) \<Rightarrow> socket" where
  "socket_with env =
     \<lparr>fd_open = True, close_fails = False, send_env = (\<lambda>k. True), recv_env = env,
      n_send = 0, n_recv = 0, sent = []\<rparr>"

definition client_with :: "(nat \<Rightarrow> recv_event) \<Rightarrow> data_transfer" where
  "client_with env = \<lparr>sock = Some (socket_with env)\<rparr>"

section \<open>The frame layout in the specification's words\<close>

text \<open>
  The definitions of this section follow the specification, not the code: the digits of a
  fixed-width field written out one by one, padding with zeros on the left, and the body
  of a write request. The theorems below compare them with what the code builds.
\<close>

definition dec_digit :: "nat \<Rightarrow> char" where
  "dec_digit d = ''0123456789'' ! d"

definition hex_digit :: "nat \<Rightarrow> char" where
  "hex_digit d = ''0123456789ABCDEF'' ! d"

text \<open>A number below 10000 as exactly four decimal digits, and a number below 65536 as
  exactly four upper-case hexadecimal digits.\<close>

definition dec4 :: "nat \<Rightarrow> string" where
  "dec4 n =
     [dec_digit (n div 1000 mod 10), dec_digit (n div 100 mod 10),
      dec_digit (n div 10 mod 10), dec_digit (n mod 10)]"

definition hex4 :: "nat \<Rightarrow> string" where
  "hex4 n =
     [hex_digit (n div 4096 mod 16), hex_digit (n div 256 mod 16),
      hex_digit (n div 16 mod 16), hex_digit (n mod 16)]"

definition zero_pad4 :: "string \<Rightarrow> string" where
  "zero_pad4 s = replicate (4 - length s) CHR ''0'' @ s"



section \<open>Golden frames\<close>

text \<open>
  C3: the read request frame for device \<open>D0100\<close> and length 2 is the fixed string
  \<open>500000FF03FF000015001004010000D01000002\<close>.
\<close>

theorem read_cmd_golden:
  "read_cmd ''D0100'' 2 = ''500000FF03FF000015001004010000D01000002''"
  by code_simp

section \<open>Transport: \<^verbatim>\<open>send\<close>, \<^verbatim>\<open>recv\<close>, \<^verbatim>\<open>close\<close>\<close>

lemma send_cases:
  "\<exists>self1. send self cmd = (Inr (if send_ok self then 0 else 1), self1)
         \<and> (\<forall>k. nth_recv self1 k = nth_recv self k)"
  by (simp add: send_def send_ok_def nth_recv_def sock_send_def split: option.splits)

lemma recv_cases:
  "\<exists>self2. recv self =
     (case nth_recv self 0 of
        RecvRaise \<Rightarrow> (Inr (1, PList []), self2)
      | RecvText t \<Rightarrow> (Inr (0, PStr t), self2))"
  by (simp add: recv_def nth_recv_def sock_recv_def split: option.splits recv_event.splits)

lemma recv_shape:
  "\<exists>self'. recv self = (Inr (1, PList []), self') \<or> (\<exists>t. recv self = (Inr (0, PStr t), self'))"
  by (simp add: recv_def sock_recv_def split: option.splits recv_event.splits)

text \<open>
  C10: \<^verbatim>\<open>send\<close> and \<^verbatim>\<open>recv\<close> are total at their boundary. Whatever the object and
  the command, \<^verbatim>\<open>send\<close> returns 0 or 1 and no exception leaves it; \<^verbatim>\<open>recv\<close> returns
  a pair and no exception leaves it, and the pair is either the code 1 with the empty list
  as data (the receive failed) or the code 0 with the text received.
\<close>

theorem send_recv_total:
  "(\<exists>self'. send self cmd = (Inr 0, self') \<or> send self cmd = (Inr 1, self'))
 \<and> (\<exists>self'. recv self = (Inr (1, PList []), self')
            \<or> (\<exists>t. recv self = (Inr (0, PStr t), self')))"
proof
  show "\<exists>self'. send self cmd = (Inr 0, self') \<or> send self cmd = (Inr 1, self')"
    by (simp add: send_def sock_send_def split: option.splits)
  show "\<exists>self'. recv self = (Inr (1, PList []), self')
            \<or> (\<exists>t. recv self = (Inr (0, PStr t), self'))"
    by (rule recv_shape)
qed

text \<open>
  C8, as the code has it: calling \<^verbatim>\<open>close\<close> twice raises nothing. The first call
  returns 1 exactly when the socket is open and closing it raises \<^verbatim>\<open>socket.error\<close>,
  and 0 otherwise; the second call returns 0, because closing a socket that is already
  closed raises nothing.
\<close>

theorem close_twice:
  "\<exists>self1 self2.
     close self =
       (Inr (if (case sock self of None \<Rightarrow> False | Some s \<Rightarrow> fd_open s \<and> close_fails s)
             then 1 else 0), self1)
   \<and> close self1 = (Inr 0, self2)"
  by (simp add: close_def sock_close_def split: option.splits)

text \<open>The claim as it was stated, a failure status from the second call, fails on an
  open connection whose socket closes cleanly: both calls return 0.\<close>

theorem close_twice_counterexample:
  "fst (close (client_with (\<lambda>k. RecvRaise))) = Inr 0
 \<and> fst (close (snd (close (client_with (\<lambda>k. RecvRaise))))) = Inr 0
 \<and> fst (close (snd (close (client_with (\<lambda>k. RecvRaise))))) \<noteq> Inr 1"
  by (simp add: close_def sock_close_def client_with_def socket_with_def)

section \<open>The exchange of \<^verbatim>\<open>read\<close> and \<^verbatim>\<open>write\<close>\<close>

lemma retry_loop_raises: "rc \<noteq> 0 \<Longrightarrow> fst (retry_loop rc d 0 self) = Inl Exception"
  using recv_shape[of self] by auto

lemma read_try_send_fail:
  assumes "\<not> send_ok self"
  shows "fst (read_try self cmd len) = Inl Exception"
proof -
  obtain self1 where "send self cmd = (Inr 1, self1)"
    using assms send_cases[of self cmd] by auto
  then show ?thesis by (simp add: read_try_def)
qed

lemma write_try_send_fail:
  assumes "\<not> send_ok self"
  shows "fst (write_try self cmd) = Inl Exception"
proof -
  obtain self1 where "send self cmd = (Inr 1, self1)"
    using assms send_cases[of self cmd] by auto
  then show ?thesis by (simp add: write_try_def)
qed

lemma read_try_recv_fail:
  assumes "send_ok self" "nth_recv self 0 = RecvRaise"
  shows "fst (read_try self cmd len) = Inl Exception"
proof -
  obtain self1 where s: "send self cmd = (Inr 0, self1)" and n: "nth_recv self1 0 = RecvRaise"
    using assms send_cases[of self cmd] by auto
  obtain self2 where r: "recv self1 = (Inr (1, PList []), self2)"
    using n recv_cases[of self1] by auto
  have l: "fst (retry_loop 1 (PList []) 0 self2) = Inl Exception"
    by (rule retry_loop_raises) simp
  show ?thesis
    unfolding read_try_def using l by (simp add: s r split: prod.splits sum.splits)
qed

lemma write_try_recv_fail:
  assumes "send_ok self" "nth_recv self 0 = RecvRaise"
  shows "fst (write_try self cmd) = Inl Exception"
proof -
  obtain self1 where s: "send self cmd = (Inr 0, self1)" and n: "nth_recv self1 0 = RecvRaise"
    using assms send_cases[of self cmd] by auto
  obtain self2 where r: "recv self1 = (Inr (1, PList []), self2)"
    using n recv_cases[of self1] by auto
  have l: "fst (retry_loop 1 (PList []) 0 self2) = Inl Exception"
    by (rule retry_loop_raises) simp
  show ?thesis
    unfolding write_try_def using l by (simp add: s r split: prod.splits sum.splits)
qed

lemma read_try_answer:
  assumes "send_ok self" "nth_recv self 0 = RecvText t"
  shows "fst (read_try self cmd len) =
           (if status t \<noteq> ''0000'' then Inr (PList [PList [PNone]])
            else (case decode_loop (PStr t) [0..<nat len] [] of
                    Inl e \<Rightarrow> Inl e
                  | Inr data \<Rightarrow> Inr (PList data)))"
proof -
  obtain self1 where s: "send self cmd = (Inr 0, self1)" and n: "nth_recv self1 0 = RecvText t"
    using assms send_cases[of self cmd] by auto
  obtain self2 where r: "recv self1 = (Inr (0, PStr t), self2)"
    using n recv_cases[of self1] by auto
  show ?thesis
    unfolding read_try_def by (simp add: s r status_def split: sum.splits)
qed

lemma write_try_answer:
  assumes "send_ok self" "nth_recv self 0 = RecvText t"
  shows "fst (write_try self cmd) =
           (if status t \<noteq> ''0000'' then Inr (PInt 1) else Inr (PInt 0))"
proof -
  obtain self1 where s: "send self cmd = (Inr 0, self1)" and n: "nth_recv self1 0 = RecvText t"
    using assms send_cases[of self cmd] by auto
  obtain self2 where r: "recv self1 = (Inr (0, PStr t), self2)"
    using n recv_cases[of self1] by auto
  show ?thesis
    unfolding write_try_def by (simp add: s r status_def)
qed

lemma fst_read:
  "fst (read self device len) =
     (case fst (read_try self (read_cmd device len) len) of
        Inl e \<Rightarrow> Inr (PList [PList [PExn e]])
      | Inr v \<Rightarrow> Inr v)"
  by (simp add: read_def split: prod.splits sum.splits)

lemma fst_write:
  "fst (write self device data len) =
     (case fst (write_try self (write_cmd device data len)) of
        Inl e \<Rightarrow> Inr (PExn e)
      | Inr v \<Rightarrow> Inr v)"
  by (simp add: write_def split: prod.splits sum.splits)

text \<open>No exception leaves \<^verbatim>\<open>read\<close> or \<^verbatim>\<open>write\<close>.\<close>

lemma read_write_return:
  "(\<exists>r. fst (read self device len) = Inr r) \<and> (\<exists>r. fst (write self device data len') = Inr r)"
  by (simp add: fst_read fst_write split: sum.splits)

text \<open>Once the first receive attempt has failed the call ends in an exception, whatever
  the second attempt returns.\<close>

lemma first_failure_is_final:
  assumes "send_ok self" "nth_recv self 0 = RecvRaise"
  shows "fst (read self device len) = Inr (PList [PList [PExn Exception]])"
    and "fst (write self device data len') = Inr (PExn Exception)"
  using assms by (simp_all add: fst_read fst_write read_try_recv_fail write_try_recv_fail)

text \<open>
  C1, evaluated where the code departs from it: the send succeeds, the first receive
  attempt raises, and the second attempt delivers a well-formed response with status
  \<open>0000\<close> and the payload \<open>0001\<close>. \<^verbatim>\<open>read\<close> returns the nested list with the exception
  and \<^verbatim>\<open>write\<close> returns the exception, although the same response delivered at the
  first attempt decodes to \<open>[1]\<close> and to the status 0.
\<close>

theorem retry_discards_second_attempt:
  "send_ok (client_with (\<lambda>k. if k = 0 then RecvRaise
                             else RecvText ''D00000FF03FF00000800000001''))
 \<and> nth_recv (client_with (\<lambda>k. if k = 0 then RecvRaise
                              else RecvText ''D00000FF03FF00000800000001'')) 0 = RecvRaise
 \<and> nth_recv (client_with (\<lambda>k. if k = 0 then RecvRaise
                              else RecvText ''D00000FF03FF00000800000001'')) 1
      = RecvText ''D00000FF03FF00000800000001''
 \<and> fst (read (client_with (\<lambda>k. if k = 0 then RecvRaise
                               else RecvText ''D00000FF03FF00000800000001'')) ''D0100'' 1)
      = Inr (PList [PList [PExn Exception]])
 \<and> fst (write (client_with (\<lambda>k. if k = 0 then RecvRaise
                                else RecvText ''D00000FF03FF00000800000001'')) ''D0100'' 5 1)
      = Inr (PExn Exception)
 \<and> fst (read (client_with (\<lambda>k. RecvText ''D00000FF03FF00000800000001'')) ''D0100'' 1)
      = Inr (PList [PInt 1])
 \<and> fst (write (client_with (\<lambda>k. RecvText ''D00000FF03FF00000800000001'')) ''D0100'' 5 1)
      = Inr (PInt 0)"
  by code_simp

text \<open>When the send succeeds and the first receive attempt delivers a response whose
  characters at offsets 18 to 22 differ from \<open>0000\<close>, \<^verbatim>\<open>read\<close> returns \<open>[[None]]\<close>
  and \<^verbatim>\<open>write\<close> returns 1.\<close>

lemma status_first_attempt:
  assumes "send_ok self" "nth_recv self 0 = RecvText t" "status t \<noteq> ''0000''"
  shows "fst (read self device len) = Inr (PList [PList [PNone]])
       \<and> fst (write self device data len') = Inr (PInt 1)"
  using assms by (simp add: fst_read fst_write read_try_answer write_try_answer)

text \<open>
  C5, evaluated where the code departs from it: the send succeeds, the first receive
  attempt raises, and the retried receive delivers a response whose characters at offsets
  18 to 22 are \<open>C051\<close>, not \<open>0000\<close>. The response is received, but the status check is
  never reached: \<^verbatim>\<open>read\<close> returns the nested list with the exception instead of the
  data-error result \<open>[[None]]\<close>, and \<^verbatim>\<open>write\<close> returns the exception instead of the
  failure indicator 1. The same response delivered at the first attempt gives
  \<open>[[None]]\<close> and 1.
\<close>

theorem status_unchecked_after_retry:
  "send_ok (client_with (\<lambda>k. if k = 0 then RecvRaise
                             else RecvText ''D00000FF03FF000004C051''))
 \<and> nth_recv (client_with (\<lambda>k. if k = 0 then RecvRaise
                              else RecvText ''D00000FF03FF000004C051'')) 0 = RecvRaise
 \<and> nth_recv (client_with (\<lambda>k. if k = 0 then RecvRaise
                              else RecvText ''D00000FF03FF000004C051'')) 1
      = RecvText ''D00000FF03FF000004C051''
 \<and> status ''D00000FF03FF000004C051'' = ''C051''
 \<and> fst (read (client_with (\<lambda>k. if k = 0 then RecvRaise
                               else RecvText ''D00000FF03FF000004C051'')) ''D0100'' 1)
      = Inr (PList [PList [PExn Exception]])
 \<and> fst (write (client_with (\<lambda>k. if k = 0 then RecvRaise
                                else RecvText ''D00000FF03FF000004C051'')) ''D0100'' 5 1)
      = Inr (PExn Exception)
 \<and> fst (read (client_with (\<lambda>k. RecvText ''D00000FF03FF000004C051'')) ''D0100'' 1)
      = Inr (PList [PList [PNone]])
 \<and> fst (write (client_with (\<lambda>k. RecvText ''D00000FF03FF000004C051'')) ''D0100'' 5 1)
      = Inr (PInt 1)"
  by code_simp

section \<open>Decoding the payload\<close>

lemma int16_str_error: "int16_str s = Inl e \<Longrightarrow> e = ValueError"
  by (auto simp: int16_str_def Let_def split: if_splits option.splits prod.splits)

text \<open>When every slot is empty or parses, the loop appends one element for each index.\<close>

lemma decode_loop_ok:
  "\<forall>j\<in>set js. slot_ok t j \<Longrightarrow>
     decode_loop (PStr t) js acc = Inr (acc @ map (slot_value t) js)"
proof (induction js arbitrary: acc)
  case Nil
  then show ?case by simp
next
  case (Cons j js)
  have ok: "slot_ok t j" and rest: "\<forall>j\<in>set js. slot_ok t j"
    using Cons.prems by simp_all
  show ?case
  proof (cases "slot t j = []")
    case True
    then show ?thesis
      using Cons.IH[OF rest] by (simp add: slot_def slot_value_def)
  next
    case False
    then obtain v where v: "int16_str (slot t j) = Inr v"
      using ok by (auto simp: slot_ok_def split: sum.splits)
    show ?thesis
      using False v Cons.IH[OF rest] by (simp add: slot_def slot_value_def)
  qed
qed

lemma slot_value_elem: "is_elem (slot_value t j)"
  by (simp add: slot_value_def split: sum.splits)

lemma slot_empty_later:
  assumes "slot t i = []" "i \<le> j"
  shows "slot t j = []"
proof -
  have "length t \<le> 4 * i + 22"
    using assms(1) by (simp add: slot_def)
  then have "length t \<le> 4 * j + 22"
    using assms(2) by simp
  then show ?thesis by (simp add: slot_def)
qed

text \<open>
  C6: when the send succeeds and the receive delivers a response made of an 18-character
  header, the status \<open>0000\<close> and the payload \<open>0001\<close> followed by \<open>0002\<close>, a read of
  length 2 returns the list \<open>[1, 2]\<close>.
\<close>

theorem decode_two:
  assumes "send_ok self"
    and "nth_recv self 0 = RecvText (hdr @ ''0000'' @ ''0001'' @ ''0002'')"
    and "length hdr = 18"
  shows "fst (read self device 2) = Inr (PList [PInt 1, PInt 2])"
proof -
  define t where "t = hdr @ ''0000'' @ ''0001'' @ ''0002''"
  have n: "nth_recv self 0 = RecvText t"
    unfolding t_def by (rule assms(2))
  have st: "status t = ''0000''"
    using assms(3) by (simp add: status_def t_def)
  have s0: "slot t 0 = ''0001''" and s1: "slot t (Suc 0) = ''0002''"
    using assms(3) by (simp_all add: slot_def t_def)
  have p0: "int16_str ''0001'' = Inr 1" and p1: "int16_str ''0002'' = Inr 2"
    by code_simp+
  have ok: "\<forall>j\<in>set [0, Suc 0]. slot_ok t j"
    by (simp add: slot_ok_def s0 s1 p0 p1)
  have idx: "[0..<nat 2] = [0, Suc 0]"
    by (simp add: upt_rec)
  have "decode_loop (PStr t) [0..<nat 2] [] = Inr ([] @ map (slot_value t) [0, Suc 0])"
    unfolding idx by (rule decode_loop_ok[OF ok])
  then have "decode_loop (PStr t) [0..<nat 2] [] = Inr [PInt 1, PInt 2]"
    by (simp add: slot_value_def s0 s1 p0 p1)
  then show ?thesis
    using st by (simp add: fst_read read_try_answer[OF assms(1) n])
qed

theorem decode_two_witness:
  "send_ok (client_with (\<lambda>k. RecvText (''D00000FF03FF00000C'' @ ''0000'' @ ''0001'' @ ''0002'')))
 \<and> length ''D00000FF03FF00000C'' = 18
 \<and> fst (read (client_with
               (\<lambda>k. RecvText (''D00000FF03FF00000C'' @ ''0000'' @ ''0001'' @ ''0002'')))
            ''D0100'' 2)
      = Inr (PList [PInt 1, PInt 2])"
proof -
  let ?c = "client_with (\<lambda>k. RecvText (''D00000FF03FF00000C'' @ ''0000'' @ ''0001'' @ ''0002''))"
  have h1: "send_ok ?c"
    by (simp add: send_ok_def client_with_def socket_with_def)
  have h2: "nth_recv ?c 0 = RecvText (''D00000FF03FF00000C'' @ ''0000'' @ ''0001'' @ ''0002'')"
    by (simp add: nth_recv_def client_with_def socket_with_def)
  have h3: "length ''D00000FF03FF00000C'' = 18"
    by simp
  show ?thesis
    using h1 h3 decode_two[OF h1 h2 h3, of "''D0100''"] by simp
qed

text \<open>
  C7, as the code has it: when the send succeeds, the receive delivers a response with
  status \<open>0000\<close>, the payload slot of a requested element \<open>i\<close> is empty, and every slot
  before it is empty or parses as a hexadecimal integer, \<^verbatim>\<open>read\<close> returns one element
  for each requested slot and the element at \<open>i\<close> is the empty text, not the number 0.
\<close>

theorem absent_slot:
  assumes "send_ok self" and "nth_recv self 0 = RecvText t" and "status t = ''0000''"
    and "i < nat len" and "slot t i = []" and "\<forall>j<i. slot_ok t j"
  shows "\<exists>xs. fst (read self device len) = Inr (PList xs) \<and> length xs = nat len
            \<and> xs ! i = PStr '''' \<and> xs ! i \<noteq> PInt 0"
proof -
  have ok: "\<forall>j\<in>set [0..<nat len]. slot_ok t j"
  proof
    fix j assume "j \<in> set [0..<nat len]"
    show "slot_ok t j"
    proof (cases "j < i")
      case True
      then show ?thesis using assms(6) by simp
    next
      case False
      then have "slot t j = []"
        using slot_empty_later[OF assms(5), of j] by simp
      then show ?thesis by (simp add: slot_ok_def)
    qed
  qed
  have d: "decode_loop (PStr t) [0..<nat len] [] = Inr ([] @ map (slot_value t) [0..<nat len])"
    by (rule decode_loop_ok[OF ok])
  have r: "fst (read self device len) = Inr (PList (map (slot_value t) [0..<nat len]))"
    using assms(3) d by (simp add: fst_read read_try_answer[OF assms(1) assms(2)])
  have e: "map (slot_value t) [0..<nat len] ! i = PStr ''''"
    using assms(4) assms(5) by (simp add: slot_value_def)
  show ?thesis
    using r e by simp
qed

theorem absent_slot_witness:
  "send_ok (client_with (\<lambda>k. RecvText ''D00000FF03FF00000800000001''))
 \<and> status ''D00000FF03FF00000800000001'' = ''0000''
 \<and> slot ''D00000FF03FF00000800000001'' 1 = []
 \<and> slot_ok ''D00000FF03FF00000800000001'' 0
 \<and> (\<exists>xs. fst (read (client_with (\<lambda>k. RecvText ''D00000FF03FF00000800000001'')) ''D0100'' 2)
             = Inr (PList xs)
         \<and> length xs = 2 \<and> xs ! 1 = PStr '''' \<and> xs ! 1 \<noteq> PInt 0)"
proof -
  let ?t = "''D00000FF03FF00000800000001''"
  let ?c = "client_with (\<lambda>k. RecvText ?t)"
  have h1: "send_ok ?c"
    by (simp add: send_ok_def client_with_def socket_with_def)
  have h2: "nth_recv ?c 0 = RecvText ?t"
    by (simp add: nth_recv_def client_with_def socket_with_def)
  have h3: "status ?t = ''0000''"
    by (simp add: status_def)
  have h4: "(1::nat) < nat 2"
    by simp
  have h5: "slot ?t 1 = []"
    by (simp add: slot_def)
  have p: "int16_str ''0001'' = Inr 1"
    by code_simp
  have h0: "slot_ok ?t 0"
    by (simp add: slot_ok_def slot_def p)
  have h6: "\<forall>j<1. slot_ok ?t j"
    using h0 by simp
  show ?thesis
    using h1 h3 h5 h0 absent_slot[OF h1 h2 h3 h4 h5 h6, of "''D0100''"] by simp
qed

text \<open>The claim as it was stated, for every read with status \<open>0000\<close> and an empty slot,
  fails when an earlier slot is not a hexadecimal number: the status is \<open>0000\<close>, the slot
  of element 1 is empty, and \<^verbatim>\<open>read\<close> returns the nested list with the
  \<^verbatim>\<open>ValueError\<close> of element 0 instead of a list holding the empty text.\<close>

theorem absent_slot_counterexample:
  "send_ok (client_with (\<lambda>k. RecvText ''D00000FF03FF0000080000ZZZZ''))
 \<and> nth_recv (client_with (\<lambda>k. RecvText ''D00000FF03FF0000080000ZZZZ'')) 0
      = RecvText ''D00000FF03FF0000080000ZZZZ''
 \<and> status ''D00000FF03FF0000080000ZZZZ'' = ''0000''
 \<and> slot ''D00000FF03FF0000080000ZZZZ'' 1 = []
 \<and> fst (read (client_with (\<lambda>k. RecvText ''D00000FF03FF0000080000ZZZZ'')) ''D0100'' 2)
      = Inr (PList [PList [PExn ValueError]])"
  by code_simp

text \<open>
  C9: the three outcomes of \<^verbatim>\<open>read\<close> have results of three different shapes. A send
  or receive failure returns the nested singleton list holding the exception raised; a
  response with a status other than \<open>0000\<close> returns \<open>[[None]]\<close>; a response with status
  \<open>0000\<close> whose requested slots are empty or parse returns a flat list of integers and
  empty texts. The two nested results differ from each other and neither is flat.
\<close>

theorem read_outcomes:
  "(\<not> send_ok self \<or> nth_recv self 0 = RecvRaise \<longrightarrow>
      fst (read self device len) = Inr (PList [PList [PExn Exception]]))
 \<and> (send_ok self \<and> nth_recv self 0 = RecvText t \<and> status t \<noteq> ''0000'' \<longrightarrow>
      fst (read self device len) = Inr (PList [PList [PNone]]))
 \<and> (send_ok self \<and> nth_recv self 0 = RecvText t \<and> status t = ''0000''
      \<and> (\<forall>j<nat len. slot_ok t j) \<longrightarrow>
      (\<exists>xs. fst (read self device len) = Inr (PList xs) \<and> flat_result (PList xs)))
 \<and> \<not> flat_result (PList [PList [PNone]])
 \<and> \<not> flat_result (PList [PList [PExn e]])
 \<and> PList [PList [PNone]] \<noteq> PList [PList [PExn e]]"
proof (intro conjI impI)
  assume "\<not> send_ok self \<or> nth_recv self 0 = RecvRaise"
  then show "fst (read self device len) = Inr (PList [PList [PExn Exception]])"
  proof (cases "send_ok self")
    case True
    assume "\<not> send_ok self \<or> nth_recv self 0 = RecvRaise"
    with True have "nth_recv self 0 = RecvRaise" by simp
    then show ?thesis
      using True by (simp add: fst_read read_try_recv_fail)
  next
    case False
    then show ?thesis
      by (simp add: fst_read read_try_send_fail)
  qed
next
  assume "send_ok self \<and> nth_recv self 0 = RecvText t \<and> status t \<noteq> ''0000''"
  then show "fst (read self device len) = Inr (PList [PList [PNone]])"
    by (simp add: fst_read read_try_answer)
next
  assume a: "send_ok self \<and> nth_recv self 0 = RecvText t \<and> status t = ''0000''
      \<and> (\<forall>j<nat len. slot_ok t j)"
  then have ok: "\<forall>j\<in>set [0..<nat len]. slot_ok t j"
    by simp
  have d: "decode_loop (PStr t) [0..<nat len] [] = Inr ([] @ map (slot_value t) [0..<nat len])"
    by (rule decode_loop_ok[OF ok])
  have r: "fst (read self device len) = Inr (PList (map (slot_value t) [0..<nat len]))"
    using a d by (simp add: fst_read read_try_answer)
  have "flat_result (PList (map (slot_value t) [0..<nat len]))"
    by (simp add: list_all_iff slot_value_elem)
  with r show "\<exists>xs. fst (read self device len) = Inr (PList xs) \<and> flat_result (PList xs)"
    by blast
qed simp_all

theorem read_outcomes_witness:
  "\<not> send_ok \<lparr>sock = None\<rparr>
 \<and> fst (read \<lparr>sock = None\<rparr> ''D0100'' 2) = Inr (PList [PList [PExn Exception]])
 \<and> send_ok (client_with (\<lambda>k. RecvText ''D00000FF03FF000004C051''))
 \<and> status ''D00000FF03FF000004C051'' \<noteq> ''0000''
 \<and> fst (read (client_with (\<lambda>k. RecvText ''D00000FF03FF000004C051'')) ''D0100'' 2)
      = Inr (PList [PList [PNone]])
 \<and> send_ok (client_with (\<lambda>k. RecvText ''D00000FF03FF00000800000001''))
 \<and> status ''D00000FF03FF00000800000001'' = ''0000''
 \<and> slot_ok ''D00000FF03FF00000800000001'' 0
 \<and> (\<exists>xs. fst (read (client_with (\<lambda>k. RecvText ''D00000FF03FF00000800000001'')) ''D0100'' 1)
             = Inr (PList xs) \<and> flat_result (PList xs))"
proof -
  let ?e = "''D00000FF03FF000004C051''"
  let ?t = "''D00000FF03FF00000800000001''"
  have a1: "\<not> send_ok \<lparr>sock = None\<rparr>"
    by (simp add: send_ok_def)
  have b1: "send_ok (client_with (\<lambda>k. RecvText ?e))"
    by (simp add: send_ok_def client_with_def socket_with_def)
  have b2: "nth_recv (client_with (\<lambda>k. RecvText ?e)) 0 = RecvText ?e"
    by (simp add: nth_recv_def client_with_def socket_with_def)
  have b3: "status ?e \<noteq> ''0000''"
    by (simp add: status_def)
  have c1: "send_ok (client_with (\<lambda>k. RecvText ?t))"
    by (simp add: send_ok_def client_with_def socket_with_def)
  have c2: "nth_recv (client_with (\<lambda>k. RecvText ?t)) 0 = RecvText ?t"
    by (simp add: nth_recv_def client_with_def socket_with_def)
  have c3: "status ?t = ''0000''"
    by (simp add: status_def)
  have p: "int16_str ''0001'' = Inr 1"
    by code_simp
  have c4: "slot_ok ?t 0"
    by (simp add: slot_ok_def slot_def p)
  have c5: "\<forall>j<nat 1. slot_ok ?t j"
    using c4 by simp
  show ?thesis
    using a1 b1 b2 b3 c1 c2 c3 c4 c5
      read_outcomes[of "\<lparr>sock = None\<rparr>" "''D0100''" 2 "[]" Exception]
      read_outcomes[of "client_with (\<lambda>k. RecvText ?e)" "''D0100''" 2 ?e Exception]
      read_outcomes[of "client_with (\<lambda>k. RecvText ?t)" "''D0100''" 1 ?t Exception]
    by simp
qed

section \<open>Encoding the fields of a request\<close>

lemma digit_cases:
  "d < 16 \<Longrightarrow> d = 0 \<or> d = 1 \<or> d = 2 \<or> d = 3 \<or> d = 4 \<or> d = 5 \<or> d = 6 \<or> d = 7 \<or> d = 8
     \<or> d = 9 \<or> d = 10 \<or> d = 11 \<or> d = 12 \<or> d = 13 \<or> d = 14 \<or> d = (15::nat)"
  by arith



lemma digit_char_dec: "d < 10 \<Longrightarrow> digit_char d = dec_digit d"
  using digit_cases[of d] by (auto simp: digit_char_def dec_digit_def)

lemma digit_char_plain:
  "d < 16 \<Longrightarrow> digit_char d \<noteq> CHR ''+'' \<and> digit_char d \<noteq> CHR ''-''"
  using digit_cases[of d] by (auto simp: digit_char_def)

lemma upper_dec_digit: "d < 10 \<Longrightarrow> upper_char (dec_digit d) = dec_digit d"
  using digit_cases[of d] by (auto simp: dec_digit_def upper_char_def)

declare dec_digits.simps [simp del] hex_digits.simps [simp del]

lemma dec_digits_hd:
  "dec_digits n \<noteq> [] \<and> hd (dec_digits n) \<noteq> CHR ''+'' \<and> hd (dec_digits n) \<noteq> CHR ''-''"
proof (induction n rule: dec_digits.induct)
  case (1 n)
  show ?case
  proof (cases "n < 10")
    case True
    then show ?thesis
      using digit_char_plain[of n] by (subst (1 2 3) dec_digits.simps) simp
  next
    case False
    then show ?thesis
      using 1 by (subst (1 2 3) dec_digits.simps) simp
  qed
qed


text \<open>On text without a sign, \<^verbatim>\<open>zfill(4)\<close> is padding with zeros on the left.\<close>

lemma zfill_plain:
  "s \<noteq> [] \<and> hd s \<noteq> CHR ''+'' \<and> hd s \<noteq> CHR ''-'' \<Longrightarrow> zfill 4 s = zero_pad4 s"
  by (cases s) (auto simp: zfill_def zero_pad4_def)

lemma number_nonneg: "0 \<le> L \<Longrightarrow> number L = zero_pad4 (dec_digits (nat L))"
  by (simp add: number_def py_str_def zfill_plain[OF dec_digits_hd])


lemma dec_digits_small:
  assumes "n < 10000"
  shows "zero_pad4 (dec_digits n) =
           map digit_char [n div 1000 mod 10, n div 100 mod 10, n div 10 mod 10, n mod 10]"
proof -
  have d1: "\<And>m. m < 10 \<Longrightarrow> dec_digits m = [digit_char m]"
    by (subst dec_digits.simps) simp
  have d2: "\<And>m. 10 \<le> m \<Longrightarrow> dec_digits m = dec_digits (m div 10) @ [digit_char (m mod 10)]"
    by (subst dec_digits.simps) simp
  have z: "digit_char 0 = CHR ''0''"
    by (simp add: digit_char_def)
  have e2: "n div 100 = n div 10 div 10"
    using div_mult2_eq[of n 10 10] by simp
  have e3: "n div 1000 = n div 10 div 10 div 10"
    using div_mult2_eq[of n 100 10] e2 by simp
  consider "n < 10" | "10 \<le> n" "n < 100" | "100 \<le> n" "n < 1000" | "1000 \<le> n" "n < 10000"
    using assms by linarith
  then show ?thesis
  proof cases
    case 1
    then show ?thesis
      by (simp add: d1 zero_pad4_def z numeral_3_eq_3)
  next
    case 2
    then have "n div 10 < 10" by simp
    with 2 show ?thesis
      by (simp add: d2 d1 zero_pad4_def z numeral_2_eq_2 e2 e3)
  next
    case 3
    then have a: "10 \<le> n div 10" "n div 10 div 10 < 10" by simp_all
    with 3 show ?thesis
      by (simp add: d2[of n] d2[of "n div 10"] d1 zero_pad4_def z e2 e3)
  next
    case 4
    then have a: "10 \<le> n div 10" "10 \<le> n div 10 div 10" "n div 10 div 10 div 10 < 10"
      by simp_all
    with 4 show ?thesis
      by (simp add: d2[of n] d2[of "n div 10"] d2[of "n div 10 div 10"] d1 zero_pad4_def z e2 e3)
  qed
qed


lemma number_dec4:
  assumes "0 \<le> L" "L \<le> 9999"
  shows "number L = dec4 (nat L)"
proof -
  have "nat L < 10000" using assms by simp
  then show ?thesis
    using assms(1) by (simp add: number_nonneg dec_digits_small dec4_def digit_char_dec)
qed

lemma upper_dec4: "upper (dec4 n) = dec4 n"
  by (simp add: upper_def dec4_def upper_dec_digit)

lemma upper_append: "upper (xs @ ys) = upper xs @ upper ys"
  by (simp add: upper_def)


lemma upper_last: "upper (a @ b @ c @ d @ e) = upper (a @ b @ c @ d) @ upper e"
  by (simp add: upper_def)

lemma upper_last2: "upper (a @ b @ c @ d @ e @ f) = upper (a @ b @ c @ d) @ upper e @ upper f"
  by (simp add: upper_def)

text \<open>What the code builds: for every element count \<open>L\<close> from 0 to 9999, the
  element-count field of a request frame, for both read and write, is \<open>L\<close> in four decimal
  digits, left-padded with zeros. In a read frame it is the last field; in a write frame
  it stands between the device and the value.\<close>

lemma number_field_decimal:
  assumes "0 \<le> L" and "L \<le> 9999"
  shows "number L = dec4 (nat L)
       \<and> read_cmd D L =
           upper (''500000FF03FF00'' @ zfill 4 (py_format_x (int (length D + 16)))
                    @ ''001004010000'' @ D) @ dec4 (nat L)
       \<and> write_cmd D v L =
           upper (''500000FF03FF00''
                    @ zfill 4 (py_format_x (int (length D + 16 + length (zfill 4 (py_format_x v)))))
                    @ ''001014010000'' @ D) @ dec4 (nat L) @ upper (zfill 4 (py_format_x v))"
proof -
  have n: "number L = dec4 (nat L)"
    using assms by (rule number_dec4)
  have l: "length (dec4 (nat L)) = 4"
    by (simp add: dec4_def)
  have lr: "length (''001004010000'' @ D @ dec4 (nat L)) = length D + 16"
    by (simp add: l)
  have lw: "length (''001014010000'' @ D @ dec4 (nat L) @ zfill 4 (py_format_x v))
              = length D + 16 + length (zfill 4 (py_format_x v))"
    by (simp add: l)
  have r: "read_cmd D L =
           upper (''500000FF03FF00'' @ zfill 4 (py_format_x (int (length D + 16)))
                    @ ''001004010000'' @ D) @ dec4 (nat L)"
    by (simp only: read_cmd_def Let_def n lr upper_last upper_dec4)
  have w: "write_cmd D v L =
           upper (''500000FF03FF00''
                    @ zfill 4 (py_format_x (int (length D + 16 + length (zfill 4 (py_format_x v)))))
                    @ ''001014010000'' @ D) @ dec4 (nat L) @ upper (zfill 4 (py_format_x v))"
    by (simp only: write_cmd_def Let_def n lw upper_last2 upper_dec4)
  show ?thesis
    using n r w by (intro conjI)
qed

text \<open>Up to 9 the decimal and the hexadecimal rendering are the same four characters.\<close>

lemma number_field_small:
  assumes "0 \<le> L" and "L \<le> 9"
  shows "number L = hex4 (nat L)"
proof -
  have n: "number L = dec4 (nat L)"
    using assms by (intro number_dec4) simp_all
  have "nat L < 10"
    using assms by simp
  then have "dec4 (nat L) = hex4 (nat L)"
    using digit_cases[of "nat L"]
    by (auto simp: dec4_def hex4_def dec_digit_def hex_digit_def)
  with n show ?thesis by simp
qed

text \<open>
  C2, evaluated where the code departs from it: at the element count \<open>L = 10\<close> the field
  that \<^verbatim>\<open>read\<close> and \<^verbatim>\<open>write\<close> place in the frame is \<open>0010\<close>, the decimal rendering,
  while ten in exactly four hexadecimal digits is \<open>000A\<close>. The field \<open>0010\<close> is what
  sixteen looks like in four hexadecimal digits. At \<open>L = 10000\<close> the field has five
  characters.
\<close>

theorem number_field_at_ten:
  "number 10 \<noteq> hex4 10
 \<and> number 10 = ''0010'' \<and> hex4 10 = ''000A'' \<and> hex4 16 = ''0010''
 \<and> read_cmd ''D0100'' 10 = ''500000FF03FF000015001004010000D0100'' @ ''0010''
 \<and> write_cmd ''D0100'' 255 10 = ''500000FF03FF000019001014010000D0100'' @ ''0010'' @ ''00FF''
 \<and> number 10000 = ''10000''"
proof -
  have n: "number 10 = ''0010''"
    by code_simp
  have h: "hex4 10 = ''000A''"
    by code_simp
  have h16: "hex4 16 = ''0010''"
    by code_simp
  have e1: "read_cmd ''D0100'' 10 = ''500000FF03FF000015001004010000D0100'' @ ''0010''"
    by code_simp
  have e2: "write_cmd ''D0100'' 255 10
              = ''500000FF03FF000019001014010000D0100'' @ ''0010'' @ ''00FF''"
    by code_simp
  have m: "number 10000 = ''10000''"
    by (simp add: number_def py_str_def zfill_def dec_digits.simps digit_char_def)
  have d: "number 10 \<noteq> hex4 10"
    by (simp add: n h)
  show ?thesis
    using d n h h16 e1 e2 m by (intro conjI)
qed



end
